theory Spec2Isabelle
  imports Complex_Main "HOL-Library.Sublist"
begin

section \<open>Supplier network drill-down (modules/smart\_performance.py)\<close>

text \<open>
  The supplier risk page keeps three session variables, \<open>network_view_tier\<close>,
  \<open>network_selected_tier1\<close> and \<open>network_selected_tier2\<close>, and two literal
  dictionaries, \<open>supplier_hierarchy\<close> and \<open>tier3_data\<close>. A Python dictionary is
  modelled as an association list in insertion order with unique keys: \<open>k in d\<close> is
  membership in the key list, \<open>d[k]\<close> is \<open>map_of d k\<close> (\<open>None\<close> standing for
  \<open>KeyError\<close>). The risk strings \<open>'Low'\<close>, \<open>'Medium'\<close>, \<open>'High'\<close>,
  \<open>'Critical'\<close> form a datatype. The \<open>value\<close> entries are stored only (no claim
  computes with them) and are kept as exact rationals in the field \<open>val\<close>.
\<close>

datatype risk_category = Low | Medium | High | Critical

record supplier_data =
  risk :: risk_category
  val :: rat
  issues :: int

record tier1_data = supplier_data +
  tier2 :: "(string \<times> supplier_data) list"

definition dict_keys :: "('k \<times> 'v) list \<Rightarrow> 'k list" where
  "dict_keys d = map fst d"

definition dict_values :: "('k \<times> 'v) list \<Rightarrow> 'v list" where
  "dict_values d = map snd d"

definition leaf :: "risk_category \<Rightarrow> rat \<Rightarrow> int \<Rightarrow> supplier_data" where
  "leaf r v i = \<lparr>risk = r, val = v, issues = i\<rparr>"

definition supplier_hierarchy :: "(string \<times> tier1_data) list" where
  "supplier_hierarchy =
    [(''MACE Group'',
        \<lparr>risk = Low, val = 4215 / 10, issues = 0, tier2 =
          [(''Thames Valley Infrastructure'', leaf Low (1562 / 10) 0),
           (''London Pipeline Alliance'', leaf Low (1273 / 10) 0),
           (''Water Quality Solutions'', leaf Low 138 0)]\<rparr>),
     (''Balfour Beatty Water'',
        \<lparr>risk = Critical, val = 163, issues = 5, tier2 =
          [(''Thames Drainage Specialists'', leaf Critical (895 / 10) 3),
           (''Environmental Compliance'', leaf High (735 / 10) 2),
           (''Network Operations'', leaf Medium 0 0)]\<rparr>),
     (''Costain Water Alliance'',
        \<lparr>risk = Medium, val = 3243 / 10, issues = 2, tier2 =
          [(''TTT Integration Works'', leaf Medium (2897 / 10) 1),
           (''Biodiversity Enhancement'', leaf Low (346 / 10) 0),
           (''Strategic Projects'', leaf Medium 0 1)]\<rparr>),
     (''Jacobs Engineering'',
        \<lparr>risk = Low, val = 1374 / 10, issues = 0, tier2 =
          [(''Smart Network Technologies'', leaf Low (954 / 10) 0),
           (''Customer Excellence'', leaf Low 42 0),
           (''Innovation Delivery'', leaf Low 0 0)]\<rparr>),
     (''Atkins (SNC-Lavalin)'',
        \<lparr>risk = Low, val = 689 / 10, issues = 0, tier2 =
          [(''Water Quality Assurance'', leaf Low (689 / 10) 0),
           (''Regulatory Compliance'', leaf Low 0 0),
           (''Technical Advisory'', leaf Low 0 0)]\<rparr>)]"

definition tier3_data :: "(string \<times> (string \<times> supplier_data) list) list" where
  "tier3_data =
    [(''Pipeline Solutions Ltd'',
        [(''Advanced Pipe Technologies'', leaf Low 315 0),
         (''Trenchless Solutions UK'', leaf Low 320 0),
         (''Water Main Specialists'', leaf Low 315 0)]),
     (''Infrastructure Services'',
        [(''Build Pro Services'', leaf Medium 195 1),
         (''Infrastructure Plus'', leaf Low 190 0),
         (''Service Contractors'', leaf Medium 195 1)]),
     (''Construction Support'',
        [(''Support Systems Ltd'', leaf Low 215 0),
         (''Construction Aids'', leaf Low 220 0),
         (''Build Support Co'', leaf Low 215 0)]),
     (''Civil Engineering'',
        [(''Engineering Sub 1'', leaf High 135 2),
         (''Engineering Sub 2'', leaf Medium 130 1),
         (''Engineering Sub 3'', leaf High 135 2)]),
     (''Project Services'',
        [(''Project Management Co'', leaf Medium 140 1),
         (''Service Delivery Ltd'', leaf Low 140 0),
         (''Project Support'', leaf Medium 140 1)]),
     (''Infrastructure Delivery'',
        [(''Delivery Systems'', leaf Low 125 0),
         (''Infrastructure Co'', leaf Low 130 0),
         (''Delivery Partners'', leaf Low 125 0)]),
     (''Water Infrastructure'',
        [(''Water Systems Ltd'', leaf Low 105 0),
         (''Hydro Solutions'', leaf Low 110 0),
         (''Infrastructure Water'', leaf Low 105 0)]),
     (''Construction Management'',
        [(''Management Systems'', leaf Low 105 0),
         (''Construction Control'', leaf Low 105 0),
         (''Build Management'', leaf Low 105 0)]),
     (''Engineering Services'',
        [(''Engineering Plus'', leaf Medium 105 1),
         (''Service Engineers'', leaf Low 105 0),
         (''Technical Services'', leaf Medium 105 1)]),
     (''Nordic Construction'',
        [(''Supplier 2.1'', leaf High 95 2),
         (''Supplier 2.2'', leaf Medium 90 1),
         (''Supplier 2.3'', leaf Critical 95 3)]),
     (''Civil Works'',
        [(''Civil Contractors'', leaf Medium 85 1),
         (''Works Management'', leaf Low 90 0),
         (''Civil Solutions'', leaf Medium 85 1)]),
     (''Project Delivery'',
        [(''Delivery Experts'', leaf Low 85 0),
         (''Project Solutions'', leaf Low 90 0),
         (''Delivery Systems'', leaf Low 85 0)]),
     (''Infrastructure Solutions'',
        [(''Solution Providers'', leaf Medium 65 1),
         (''Infrastructure Tech'', leaf Low 70 0),
         (''Solutions Ltd'', leaf Medium 65 1)]),
     (''Construction Services'',
        [(''Service Providers'', leaf Medium 65 1),
         (''Construction Plus'', leaf Low 70 0),
         (''Building Services'', leaf Medium 65 1)]),
     (''Engineering Partners'',
        [(''Partner Engineers'', leaf Low 65 0),
         (''Engineering Alliance'', leaf Low 70 0),
         (''Technical Partners'', leaf Low 65 0)])]"

subsection \<open>Navigation state and its transitions\<close>

record nav_state =
  network_view_tier :: int
  network_selected_tier1 :: "string option"
  network_selected_tier2 :: "string option"

text \<open>Session initialisation (lines 231-236): tier 1 and no selection.\<close>

definition init_state :: nav_state where
  "init_state = \<lparr>network_view_tier = 1, network_selected_tier1 = None,
                  network_selected_tier2 = None\<rparr>"

text \<open>Python truth value of an optional string: \<open>None\<close> and \<open>''\<close> are falsy.\<close>

definition truthy_str :: "string option \<Rightarrow> bool" where
  "truthy_str x = (case x of None \<Rightarrow> False | Some s \<Rightarrow> s \<noteq> [])"

text \<open>
  What one handler run did: \<open>Rerun\<close> when it changed the session state and called
  \<open>st.rerun()\<close>; \<open>Info\<close> when it only displayed the \<open>st.info\<close> panel of a tier-2
  supplier without tier-3 data (the spec's \<open>NoDeeperData\<close>); \<open>NoAction\<close> when no
  branch fired (the spec's \<open>InvalidSelection\<close>); \<open>KeyError\<close> when a dictionary
  subscript failed, which aborts the run and leaves the session state as it was.
\<close>

datatype outcome = Rerun | Info | NoAction | KeyError

text \<open>"Back to Previous Tier" (lines 382-390).\<close>

definition go_back :: "nav_state \<Rightarrow> nav_state" where
  "go_back s =
    (if network_view_tier s > 1 then
       (if network_view_tier s = 3 then
          s\<lparr>network_view_tier := 2, network_selected_tier2 := None\<rparr>
        else if network_view_tier s = 2 then
          s\<lparr>network_view_tier := 1, network_selected_tier1 := None\<rparr>
        else s)
     else s)"

text \<open>"Reset to Tier 1" (lines 402-406).\<close>

definition reset :: "nav_state \<Rightarrow> nav_state" where
  "reset s = s\<lparr>network_view_tier := 1, network_selected_tier1 := None,
               network_selected_tier2 := None\<rparr>"

text \<open>
  The drill-down buttons (lines 473-482 and 552-563). A button exists only in the view
  that renders it: a tier-1 button for every key of the hierarchy while the tier is 1, a
  tier-2 button for every child of the selected tier-1 supplier that is a key of
  \<open>tier3_data\<close> while the tier is 2 and the tier-1 selection is truthy. Pressing a
  button that is not rendered is not possible; it is modelled as \<open>NoAction\<close>.
\<close>

definition drill_button ::
  "(string \<times> tier1_data) list \<Rightarrow> (string \<times> 'c) list \<Rightarrow> string \<Rightarrow> nav_state
     \<Rightarrow> outcome \<times> nav_state" where
  "drill_button hierarchy t3 supplier s =
    (if network_view_tier s = 1 then
       (if supplier \<in> set (dict_keys hierarchy) then
          (Rerun, s\<lparr>network_view_tier := 2, network_selected_tier1 := Some supplier\<rparr>)
        else (NoAction, s))
     else if network_view_tier s = 2 \<and> truthy_str (network_selected_tier1 s) then
       (case map_of hierarchy (the (network_selected_tier1 s)) of
          None \<Rightarrow> (KeyError, s)
        | Some tier1 \<Rightarrow>
            (let tier3_available = filter (\<lambda>name. name \<in> set (dict_keys t3))
                                     (dict_keys (tier2 tier1))
             in if supplier \<in> set tier3_available then
                  (Rerun, s\<lparr>network_view_tier := 3, network_selected_tier2 := Some supplier\<rparr>)
                else (NoAction, s)))
     else (NoAction, s))"

text \<open>A click on a node of the network chart (lines 685-701).\<close>

definition node_click ::
  "(string \<times> tier1_data) list \<Rightarrow> (string \<times> 'c) list \<Rightarrow> string \<Rightarrow> nav_state
     \<Rightarrow> outcome \<times> nav_state" where
  "node_click hierarchy t3 clicked_supplier s =
    (if network_view_tier s = 1 \<and> clicked_supplier \<in> set (dict_keys hierarchy) then
       (Rerun, s\<lparr>network_view_tier := 2, network_selected_tier1 := Some clicked_supplier\<rparr>)
     else if network_view_tier s = 2 \<and> truthy_str (network_selected_tier1 s) then
       (case map_of hierarchy (the (network_selected_tier1 s)) of
          None \<Rightarrow> (KeyError, s)
        | Some tier1 \<Rightarrow>
            (if clicked_supplier \<in> set (dict_keys (tier2 tier1)) then
               (if clicked_supplier \<in> set (dict_keys t3) then
                  (Rerun, s\<lparr>network_view_tier := 3,
                             network_selected_tier2 := Some clicked_supplier\<rparr>)
                else (Info, s))
             else (NoAction, s)))
     else (NoAction, s))"

text \<open>
  The user actions that can change the navigation state. The spec's \<open>drillDown\<close> is
  either a chart click or a button press; \<open>step\<close> is the state after one action.
\<close>

datatype action = Click string | Button string | Back | Reset

fun step ::
  "(string \<times> tier1_data) list \<Rightarrow> (string \<times> 'c) list \<Rightarrow> action \<Rightarrow> nav_state \<Rightarrow> nav_state"
where
  "step hierarchy t3 (Click n) s = snd (node_click hierarchy t3 n s)"
| "step hierarchy t3 (Button n) s = snd (drill_button hierarchy t3 n s)"
| "step hierarchy t3 Back s = go_back s"
| "step hierarchy t3 Reset s = reset s"

text \<open>The state reached from the initial state by a finite sequence of actions.\<close>

definition run ::
  "(string \<times> tier1_data) list \<Rightarrow> (string \<times> 'c) list \<Rightarrow> action list \<Rightarrow> nav_state" where
  "run hierarchy t3 acts = foldl (\<lambda>s a. step hierarchy t3 a s) init_state acts"

text \<open>
  The tier-2 summary (lines 814-839): the names of the tier-2 suppliers of the selected
  tier-1 supplier in definition order, the number of them whose risk is High or
  Critical, the sum of their issue counts, and the number that have tier-3 data.
\<close>

record tier2_view =
  all_tier2 :: "string list"
  high_risk_tier2 :: int
  total_tier2_issues :: int
  tier3_available_count :: int

definition tier2_summary ::
  "(string \<times> tier1_data) list \<Rightarrow> (string \<times> 'c) list \<Rightarrow> nav_state \<Rightarrow> tier2_view option" where
  "tier2_summary hierarchy t3 s =
    (if network_view_tier s = 2 \<and> truthy_str (network_selected_tier1 s) then
       (case map_of hierarchy (the (network_selected_tier1 s)) of
          None \<Rightarrow> None
        | Some tier1 \<Rightarrow>
            (let tier2_suppliers = tier2 tier1;
                 tier2_with_tier3 = filter (\<lambda>name. name \<in> set (dict_keys t3))
                                      (dict_keys tier2_suppliers)
             in Some \<lparr>all_tier2 = dict_keys tier2_suppliers,
                       high_risk_tier2 =
                         sum_list (map (\<lambda>data. 1)
                           (filter (\<lambda>data. risk data \<in> set [High, Critical])
                              (dict_values tier2_suppliers))),
                       total_tier2_issues = sum_list (map issues (dict_values tier2_suppliers)),
                       tier3_available_count = int (length tier2_with_tier3)\<rparr>))
     else None)"

text \<open>
  The navigation invariant of the spec: tier 1 has no selection, tier 2 has a tier-1
  selection only, tier 3 has both.
\<close>

definition nav_invariant :: "nav_state \<Rightarrow> bool" where
  "nav_invariant s \<longleftrightarrow>
     (network_view_tier s = 1 \<longrightarrow>
        network_selected_tier1 s = None \<and> network_selected_tier2 s = None) \<and>
     (network_view_tier s = 2 \<longrightarrow>
        network_selected_tier1 s \<noteq> None \<and> network_selected_tier2 s = None) \<and>
     (network_view_tier s = 3 \<longrightarrow>
        network_selected_tier1 s \<noteq> None \<and> network_selected_tier2 s \<noteq> None)"

section \<open>Cross-chart filter (utils/chart\_filtering.py)\<close>

text \<open>
  A pandas data frame is modelled by its column names, the dtype of each column and its
  rows, each row the list of its cells in column order; column names are taken to be
  distinct and every row to have one cell per column, as pandas guarantees. A cell, and a
  filter value, is a string, an integer or \<open>None\<close>. A column has dtype \<open>int64\<close>
  (every cell an integer of the 64-bit range), \<open>object\<close> (cells are Python objects:
  strings, integers of any size, \<open>None\<close>) or \<open>str\<close> (the dedicated string dtype);
  \<open>float64\<close> columns and floating-point cells are outside the model, because the order
  in which pandas adds the floats of a column is not fixed by the source. The session
  keys \<open>filter_active\<close>, \<open>filter_type\<close> and \<open>filter_value\<close> form a record, an
  absent key reading as \<open>False\<close> or \<open>None\<close> as \<open>st.session_state.get\<close> does.
\<close>

datatype cell = StrV string | NumV int | NoneV

datatype dtype = Int64 | Object | Str

datatype py_error = TypeError | OverflowError

record dataframe =
  columns :: "string list"
  dtypes :: "string \<Rightarrow> dtype"
  rows :: "cell list list"

record session =
  filter_active :: bool
  filter_type :: "string option"
  filter_value :: cell

text \<open>Python truth value of a scalar: \<open>None\<close>, \<open>''\<close> and \<open>0\<close> are falsy.\<close>

fun truthy :: "cell \<Rightarrow> bool" where
  "truthy (StrV s) = (s \<noteq> [])"
| "truthy (NumV n) = (n \<noteq> 0)"
| "truthy NoneV = False"

text \<open>The cell of row \<open>r\<close> in column \<open>c\<close>, if the frame has that column.\<close>

definition cell_at :: "dataframe \<Rightarrow> cell list \<Rightarrow> string \<Rightarrow> cell option" where
  "cell_at df r c = map_of (zip (columns df) r) c"

text \<open>
  \<open>df[df[c] == v]\<close>: the rows whose cell in column \<open>c\<close> equals \<open>v\<close>, in their
  order, under the same columns. The elementwise comparison of pandas is false on a
  missing cell, whatever the value compared with.
\<close>

definition select_eq :: "dataframe \<Rightarrow> string \<Rightarrow> cell \<Rightarrow> dataframe" where
  "select_eq df c v =
     df\<lparr>rows := filter (\<lambda>r. cell_at df r c = Some v \<and> v \<noteq> NoneV) (rows df)\<rparr>"

definition apply_cross_chart_filter ::
  "session \<Rightarrow> dataframe \<Rightarrow> string option \<Rightarrow> cell \<Rightarrow> dataframe" where
  "apply_cross_chart_filter st df f_type f_value =
    (if \<not> filter_active st \<or> \<not> truthy_str f_type \<or> \<not> truthy f_value then df
     else
       (let filtered_df = df in
        if f_type = Some ''rag_status'' \<and> ''rag_status'' \<in> set (columns df) then
          select_eq filtered_df ''rag_status'' f_value
        else if f_type = Some ''procurement_category''
                \<and> ''procurement_category'' \<in> set (columns df) then
          select_eq filtered_df ''procurement_category'' f_value
        else if f_type = Some ''supplier'' \<and> ''supplier'' \<in> set (columns df) then
          select_eq filtered_df ''supplier'' f_value
        else if f_type = Some ''risk_level'' \<and> ''risk_level'' \<in> set (columns df) then
          select_eq filtered_df ''risk_level'' f_value
        else if f_type = Some ''current_stage''
                \<and> ''current_stage'' \<in> set (columns df) then
          select_eq filtered_df ''current_stage'' f_value
        else if f_type = Some ''team_member'' \<and> ''team_member'' \<in> set (columns df) then
          select_eq filtered_df ''team_member'' f_value
        else if f_type = Some ''market_segment''
                \<and> ''market_segment'' \<in> set (columns df) then
          select_eq filtered_df ''market_segment'' f_value
        else filtered_df))"

text \<open>The recognized dimensions: the column names the chain above tests for.\<close>

definition recognized :: "string list" where
  "recognized = [''rag_status'', ''procurement_category'', ''supplier'', ''risk_level'',
                 ''current_stage'', ''team_member'', ''market_segment'']"

subsection \<open>Summary statistics\<close>

text \<open>\<open>df[c]\<close>: the cells of column \<open>c\<close>, one per row.\<close>

definition column :: "dataframe \<Rightarrow> string \<Rightarrow> cell list" where
  "column df c = map (\<lambda>r. case cell_at df r c of Some x \<Rightarrow> x | None \<Rightarrow> NoneV) (rows df)"

fun is_str :: "cell \<Rightarrow> bool" where
  "is_str (StrV s) = True"
| "is_str c = False"

fun num :: "cell \<Rightarrow> int" where
  "num (NumV n) = n"
| "num c = 0"

text \<open>
  Python and numpy floats are IEEE binary64 numbers. A finite one is modelled by the
  rational it denotes, and an operation by the exact result rounded to the nearest number
  with a 53-bit significand, ties to the even significand: \<open>fl64\<close>. The exponent
  range is not bounded by \<open>fl64\<close>; the quotients below are at least one millionth
  in magnitude when they are not zero, far above the subnormal range, and overflow is
  checked where it can occur. \<open>log2n n\<close> is the position of the leading bit of
  \<open>n\<close>, \<open>ilog2 q\<close> the exponent of the binade of a positive \<open>q\<close>.
\<close>

fun log2n :: "nat \<Rightarrow> nat" where
  "log2n n = (if n < 2 then 0 else Suc (log2n (n div 2)))"

declare log2n.simps [simp del]

definition ilog2 :: "rat \<Rightarrow> int" where
  "ilog2 q = (if 1 \<le> q then int (log2n (nat \<lfloor>q\<rfloor>))
              else - int (Suc (log2n (nat (\<lceil>1 / q\<rceil> - 1)))))"

definition round_even :: "rat \<Rightarrow> int" where
  "round_even x =
     (let f = \<lfloor>x\<rfloor>; d = x - rat_of_int f
      in if d < 1 / 2 then f else if 1 / 2 < d then f + 1 else if even f then f else f + 1)"

definition fl64 :: "rat \<Rightarrow> rat" where
  "fl64 q = (if q = 0 then 0
             else (let u = power_int 2 (ilog2 \<bar>q\<bar> - 52)
                   in sgn q * rat_of_int (round_even (\<bar>q\<bar> / u)) * u))"

text \<open>The value of a 64-bit signed integer after wrap-around.\<close>

definition wrap64 :: "int \<Rightarrow> int" where
  "wrap64 s = (s + 2 ^ 63) mod 2 ^ 64 - 2 ^ 63"

text \<open>
  \<open>series.sum() / 1_000_000\<close>, by the dtype of the column.
  \<^item> \<open>int64\<close>: the sum is a numpy \<open>int64\<close> that wraps around silently; dividing it
    by a Python integer converts both operands to binary64 and divides them, so the
    sum is rounded first and the quotient after.
  \<^item> \<open>object\<close>: missing cells are skipped, a string cell makes the sum or the division
    raise \<open>TypeError\<close>, and otherwise the sum is an exact Python integer, whose true
    division is correctly rounded and raises \<open>OverflowError\<close> beyond the binary64 range.
  \<^item> \<open>str\<close>: the sum of a string column is a string or fails, and so does not divide:
    \<open>TypeError\<close>, also for no rows.
\<close>

definition sum_div_million :: "dtype \<Rightarrow> cell list \<Rightarrow> py_error + rat" where
  "sum_div_million dt cs =
     (case dt of
        Int64 \<Rightarrow> Inr (fl64 (fl64 (rat_of_int (wrap64 (sum_list (map num cs)))) / 1000000))
      | Object \<Rightarrow>
          (if list_ex is_str cs then Inl TypeError
           else (let r = fl64 (rat_of_int (sum_list (map num cs)) / 1000000)
                 in if 2 ^ 1024 \<le> \<bar>r\<bar> then Inl OverflowError else Inr r))
      | Str \<Rightarrow> Inl TypeError)"

text \<open>
  The returned dictionary. \<open>value_m\<close> is the number the float denotes, or the integer
  0 of the branch for a table without the column.
\<close>

record summary_stats =
  contracts :: int
  value_m :: rat
  filtered :: bool

definition get_filtered_summary_stats :: "session \<Rightarrow> dataframe \<Rightarrow> py_error + summary_stats" where
  "get_filtered_summary_stats st df =
    (if filter_active st then
       (let filtered_df = apply_cross_chart_filter st df (filter_type st) (filter_value st);
            total_contracts = int (length (rows filtered_df))
        in case (if ''total_value_gbp'' \<in> set (columns filtered_df)
                 then sum_div_million (dtypes filtered_df ''total_value_gbp'')
                        (column filtered_df ''total_value_gbp'')
                 else Inr 0) of
             Inl e \<Rightarrow> Inl e
           | Inr total_value \<Rightarrow>
               Inr \<lparr>contracts = total_contracts, value_m = total_value, filtered = True\<rparr>)
     else
       (let total_contracts = int (length (rows df))
        in case (if ''total_value_gbp'' \<in> set (columns df)
                 then sum_div_million (dtypes df ''total_value_gbp'')
                        (column df ''total_value_gbp'')
                 else Inr 0) of
             Inl e \<Rightarrow> Inl e
           | Inr total_value \<Rightarrow>
               Inr \<lparr>contracts = total_contracts, value_m = total_value, filtered = False\<rparr>))"

text \<open>
  The view the spec's \<open>summaryStats\<close> speaks of: the filtered table when a filter is
  active, the full table otherwise. The sum of the monetary column of a table, missing
  and absent cells counting as nothing.
\<close>

definition current_view :: "session \<Rightarrow> dataframe \<Rightarrow> dataframe" where
  "current_view st df =
     (if filter_active st then apply_cross_chart_filter st df (filter_type st) (filter_value st)
      else df)"

definition monetary_sum :: "dataframe \<Rightarrow> int" where
  "monetary_sum df = (\<Sum>r\<leftarrow>rows df. case cell_at df r ''total_value_gbp'' of
                                      Some (NumV n) \<Rightarrow> n | _ \<Rightarrow> 0)"

text \<open>
  The spec's \<open>summaryStats\<close> result is the pair \<open>{row_count, total_value}\<close>:
  the entries \<open>contracts\<close> and \<open>value_m\<close> of the dictionary the code returns
  (an error is passed through).
\<close>

definition totals :: "py_error + summary_stats \<Rightarrow> py_error + int \<times> rat" where
  "totals res = (case res of Inl e \<Rightarrow> Inl e | Inr r \<Rightarrow> Inr (contracts r, value_m r))"

text \<open>
  The condition under which the chain of \<open>apply_cross_chart_filter\<close> selects rows:
  the filter is active, the value is truthy, and the dimension is a recognized name that
  is a column of the frame.
\<close>

definition filter_applies :: "session \<Rightarrow> dataframe \<Rightarrow> string option \<Rightarrow> cell \<Rightarrow> bool" where
  "filter_applies st df ft v \<longleftrightarrow>
     filter_active st \<and> truthy v \<and>
     (\<exists>d \<in> set recognized. ft = Some d \<and> d \<in> set (columns df))"

subsection \<open>Sample inputs\<close>

text \<open>
  Concrete states, tables and filter settings at which the general theorems below are
  instantiated.
\<close>

definition balfour_tier2 :: nav_state where
  "balfour_tier2 = \<lparr>network_view_tier = 2,
                     network_selected_tier1 = Some ''Balfour Beatty Water'',
                     network_selected_tier2 = None\<rparr>"

definition sample_dtypes :: "string \<Rightarrow> dtype" where
  "sample_dtypes c = (if c = ''total_value_gbp'' then Int64 else Object)"

definition sample_contracts :: dataframe where
  "sample_contracts =
     \<lparr>columns = [''package_name'', ''risk_level'', ''total_value_gbp''],
      dtypes = sample_dtypes,
      rows = [[StrV ''Reservoir upgrade'', StrV ''High'', NumV 2500000],
              [StrV ''Mains renewal'', StrV ''Low'', NumV 1500000],
              [StrV ''Pumping station'', StrV ''High'', NumV 4000000]]\<rparr>"

definition sample_suppliers :: dataframe where
  "sample_suppliers =
     \<lparr>columns = [''supplier'', ''total_value_gbp''],
      dtypes = sample_dtypes,
      rows = [[StrV '''', NumV 2000000], [StrV ''Costain'', NumV 1000000]]\<rparr>"

definition only_costain :: dataframe where
  "only_costain =
     \<lparr>columns = [''supplier'', ''total_value_gbp''],
      dtypes = sample_dtypes,
      rows = [[StrV ''Costain'', NumV 2000000], [StrV ''Costain'', NumV 1000000]]\<rparr>"


definition high_risk_filter :: session where
  "high_risk_filter = \<lparr>filter_active = True, filter_type = Some ''risk_level'',
                        filter_value = StrV ''High''\<rparr>"

definition empty_supplier_filter :: session where
  "empty_supplier_filter = \<lparr>filter_active = True, filter_type = Some ''supplier'',
                             filter_value = StrV ''''\<rparr>"

definition only_costain_filter :: session where
  "only_costain_filter = \<lparr>filter_active = True, filter_type = Some ''supplier'',
                           filter_value = StrV ''Costain''\<rparr>"

definition no_filter :: session where
  "no_filter = \<lparr>filter_active = False, filter_type = None, filter_value = NoneV\<rparr>"

section \<open>Properties of the drill-down navigation\<close>

subsection \<open>The invariant is preserved by every handler\<close>

lemma nav_invariant_go_back: "nav_invariant s \<Longrightarrow> nav_invariant (go_back s)"
  by (auto simp: nav_invariant_def go_back_def)

lemma nav_invariant_reset: "nav_invariant (reset s)"
  by (simp add: nav_invariant_def reset_def)

lemma nav_invariant_node_click:
  "nav_invariant s \<Longrightarrow> nav_invariant (snd (node_click hierarchy t3 n s))"
  by (auto simp: nav_invariant_def node_click_def truthy_str_def split: option.splits)

lemma nav_invariant_drill_button:
  "nav_invariant s \<Longrightarrow> nav_invariant (snd (drill_button hierarchy t3 n s))"
  by (auto simp: nav_invariant_def drill_button_def truthy_str_def Let_def
        split: option.splits)

lemma nav_invariant_step: "nav_invariant s \<Longrightarrow> nav_invariant (step hierarchy t3 a s)"
  by (cases a)
    (simp_all add: nav_invariant_go_back nav_invariant_reset nav_invariant_node_click
       nav_invariant_drill_button)

lemma nav_invariant_init: "nav_invariant init_state"
  by (simp add: nav_invariant_def init_state_def)

lemma run_Nil: "run hierarchy t3 [] = init_state"
  by (simp add: run_def)

lemma run_snoc: "run hierarchy t3 (acts @ [a]) = step hierarchy t3 a (run hierarchy t3 acts)"
  by (simp add: run_def)

lemma nav_invariant_run: "nav_invariant (run hierarchy t3 acts)"
proof (induction acts rule: rev_induct)
  case Nil
  show ?case by (simp add: run_Nil nav_invariant_init)
next
  case (snoc a acts)
  then show ?case by (simp add: run_snoc nav_invariant_step)
qed

lemma reset_any: "reset s = init_state"
  by (simp add: reset_def init_state_def)

subsection \<open>The Balfour Beatty Water scenario, evaluated\<close>

lemma balfour_is_tier1: "''Balfour Beatty Water'' \<in> set (dict_keys supplier_hierarchy)"
  by (simp add: supplier_hierarchy_def dict_keys_def)

lemma click_balfour:
  "node_click supplier_hierarchy tier3_data ''Balfour Beatty Water'' init_state =
     (Rerun, balfour_tier2)"
  by (simp add: node_click_def init_state_def balfour_tier2_def balfour_is_tier1)

lemma button_balfour:
  "drill_button supplier_hierarchy tier3_data ''Balfour Beatty Water'' init_state =
     (Rerun, balfour_tier2)"
  by (simp add: drill_button_def init_state_def balfour_tier2_def balfour_is_tier1)

lemma summary_balfour:
  "tier2_summary supplier_hierarchy tier3_data balfour_tier2 =
     Some \<lparr>all_tier2 = [''Thames Drainage Specialists'', ''Environmental Compliance'',
                         ''Network Operations''],
           high_risk_tier2 = 2, total_tier2_issues = 5, tier3_available_count = 0\<rparr>"
  by (simp add: tier2_summary_def balfour_tier2_def supplier_hierarchy_def tier3_data_def
        dict_keys_def dict_values_def truthy_str_def leaf_def)

lemma click_network_operations:
  "node_click supplier_hierarchy tier3_data ''Network Operations'' balfour_tier2 =
     (Info, balfour_tier2)"
  by (simp add: node_click_def balfour_tier2_def supplier_hierarchy_def tier3_data_def
        dict_keys_def truthy_str_def)

lemma button_network_operations:
  "drill_button supplier_hierarchy tier3_data ''Network Operations'' balfour_tier2 =
     (NoAction, balfour_tier2)"
  by (simp add: drill_button_def balfour_tier2_def supplier_hierarchy_def tier3_data_def
        dict_keys_def truthy_str_def)

lemma tier_balfour_tier2: "network_view_tier balfour_tier2 = 2"
  by (simp add: balfour_tier2_def)

text \<open>
  Claim C1 as stated gives \<open>high_risk_count = 1\<close> for the tier-2 view of Balfour
  Beatty Water. The view holds Thames Drainage Specialists (Critical) and Environmental
  Compliance (High), so the count of High-or-Critical nodes computed at lines 830-836 is
  not 1.
\<close>

theorem balfour_high_risk_count_counterexample:
  "map_option high_risk_tier2
     (tier2_summary supplier_hierarchy tier3_data
        (snd (node_click supplier_hierarchy tier3_data ''Balfour Beatty Water'' init_state)))
   \<noteq> Some 1"
  by (simp add: click_balfour summary_balfour)

text \<open>
  Claim C1, amended: from the initial (tier 1) state, drilling into Balfour Beatty Water,
  by chart click or by button, gives the state with tier 2, tier-1 selection Balfour
  Beatty Water and no tier-2 selection; its view lists exactly the three tier-2
  suppliers in definition order, with issue total 5 and high-risk count 2 (and no
  supplier with tier-3 data). Clicking Network Operations in that state only shows the
  information panel (no deeper data) and pressing a button for it does nothing; either
  way the state stays as it was.
\<close>

theorem balfour_drill_down_scenario:
  "node_click supplier_hierarchy tier3_data ''Balfour Beatty Water'' init_state =
     (Rerun, balfour_tier2) \<and>
   drill_button supplier_hierarchy tier3_data ''Balfour Beatty Water'' init_state =
     (Rerun, balfour_tier2) \<and>
   tier2_summary supplier_hierarchy tier3_data balfour_tier2 =
     Some \<lparr>all_tier2 = [''Thames Drainage Specialists'', ''Environmental Compliance'',
                         ''Network Operations''],
           high_risk_tier2 = 2, total_tier2_issues = 5, tier3_available_count = 0\<rparr> \<and>
   node_click supplier_hierarchy tier3_data ''Network Operations'' balfour_tier2 =
     (Info, balfour_tier2) \<and>
   drill_button supplier_hierarchy tier3_data ''Network Operations'' balfour_tier2 =
     (NoAction, balfour_tier2)"
  by (simp only: click_balfour button_balfour summary_balfour click_network_operations
        button_network_operations simp_thms)

text \<open>
  Claim C2: every action (a drill-down by click or button with any node id, back, reset)
  applied to any state reachable from the initial state yields a state that satisfies
  the navigation invariant, whether the action changed the state or was rejected. This
  holds for every hierarchy and every tier-3 table, the ones of the source included.
\<close>

theorem navigation_preserves_invariant:
  "nav_invariant (step hierarchy t3 a (run hierarchy t3 acts))"
  by (rule nav_invariant_step [OF nav_invariant_run])

theorem navigation_preserves_invariant_witness:
  "network_view_tier
     (step supplier_hierarchy tier3_data (Click ''Network Operations'')
        (run supplier_hierarchy tier3_data [Click ''Balfour Beatty Water''])) = 2 \<and>
   nav_invariant
     (step supplier_hierarchy tier3_data (Click ''Network Operations'')
        (run supplier_hierarchy tier3_data [Click ''Balfour Beatty Water'']))"
  using navigation_preserves_invariant [of supplier_hierarchy tier3_data
      "Click ''Network Operations''" "[Click ''Balfour Beatty Water'']"]
  by (simp add: run_def click_balfour click_network_operations tier_balfour_tier2)

text \<open>
  Claim C3: for every key \<open>n\<close> of the hierarchy, a drill-down into \<open>n\<close> from the
  initial tier-1 state (by click or by button) followed by "back" gives the initial
  state again: tier 1 and no selection.
\<close>

theorem drill_down_go_back_round_trip:
  assumes "n \<in> set (dict_keys hierarchy)"
  shows "go_back (step hierarchy t3 (Click n) init_state) = init_state \<and>
         go_back (step hierarchy t3 (Button n) init_state) = init_state"
  using assms by (simp add: node_click_def drill_button_def go_back_def init_state_def)

theorem drill_down_go_back_round_trip_witness:
  "''Balfour Beatty Water'' \<in> set (dict_keys supplier_hierarchy) \<and>
   go_back (step supplier_hierarchy tier3_data (Click ''Balfour Beatty Water'') init_state)
     = init_state \<and>
   go_back (step supplier_hierarchy tier3_data (Button ''Balfour Beatty Water'') init_state)
     = init_state"
  using drill_down_go_back_round_trip [OF balfour_is_tier1, of tier3_data] balfour_is_tier1
  by simp

text \<open>
  Claim C4: reset applied to the state reached by any finite sequence of actions gives
  the initial state (tier 1, no selection).
\<close>

theorem reset_restores_initial_state: "reset (run hierarchy t3 acts) = init_state"
  by (rule reset_any)

theorem reset_restores_initial_state_witness:
  "reset (run supplier_hierarchy tier3_data
            [Click ''Balfour Beatty Water'', Click ''Network Operations'', Back,
             Button ''MACE Group'']) = init_state"
  using reset_restores_initial_state [of supplier_hierarchy tier3_data] by simp

section \<open>Properties of the cross-chart filter\<close>

subsection \<open>The filter as a selection\<close>

lemma apply_cross_chart_filter_eq:
  "apply_cross_chart_filter st df ft v =
     (if filter_applies st df ft v then select_eq df (the ft) v else df)"
  by (auto simp: apply_cross_chart_filter_def filter_applies_def recognized_def truthy_str_def
        Let_def split: option.splits)

lemma columns_select_eq: "columns (select_eq df c v) = columns df"
  by (simp add: select_eq_def)

lemma cell_at_select_eq: "cell_at (select_eq df c v) r c' = cell_at df r c'"
  by (simp add: cell_at_def select_eq_def)

lemma select_eq_idem: "select_eq (select_eq df c v) c v = select_eq df c v"
  by (simp add: select_eq_def cell_at_def)

lemma filter_applies_select_eq:
  "filter_applies st (select_eq df c w) ft v = filter_applies st df ft v"
  by (simp add: filter_applies_def columns_select_eq)

lemma columns_apply: "columns (apply_cross_chart_filter st df ft v) = columns df"
  by (simp add: apply_cross_chart_filter_eq columns_select_eq)

lemma truthy_not_None: "truthy v \<Longrightarrow> v \<noteq> NoneV"
  by auto

lemma rows_apply_active:
  assumes "filter_active st" and "d \<in> set recognized" and "d \<in> set (columns df)"
    and "truthy v"
  shows "rows (apply_cross_chart_filter st df (Some d) v) =
           filter (\<lambda>r. cell_at df r d = Some v) (rows df)"
  using assms truthy_not_None [OF assms(4)]
  by (auto simp: apply_cross_chart_filter_eq filter_applies_def select_eq_def)

lemma select_eq_all:
  assumes "\<forall>r \<in> set (rows df). cell_at df r d = Some v" and "v \<noteq> NoneV"
  shows "select_eq df d v = df"
proof -
  have "filter (\<lambda>r. cell_at df r d = Some v \<and> v \<noteq> NoneV) (rows df) = rows df"
    using assms by (simp add: filter_id_conv)
  then show ?thesis by (simp add: select_eq_def)
qed

lemma apply_matching_all:
  assumes "\<forall>r \<in> set (rows df). cell_at df r d = Some v"
  shows "apply_cross_chart_filter st df (Some d) v = df"
proof (cases "filter_applies st df (Some d) v")
  case True
  then have "v \<noteq> NoneV" by (auto simp: filter_applies_def)
  with assms True show ?thesis
    by (simp add: apply_cross_chart_filter_eq select_eq_all)
next
  case False
  then show ?thesis by (simp add: apply_cross_chart_filter_eq)
qed

subsection \<open>Rounding to binary64\<close>

lemma log2n_bounds: "0 < n \<Longrightarrow> 2 ^ log2n n \<le> n \<and> n < 2 ^ Suc (log2n n)"
proof (induction n rule: log2n.induct)
  case (1 n)
  show ?case
  proof (cases "n < 2")
    case True
    with "1.prems" show ?thesis by (simp add: log2n.simps)
  next
    case False
    then have "0 < n div 2" by simp
    with "1.IH" False
    have ih: "2 ^ log2n (n div 2) \<le> n div 2" "n div 2 < 2 ^ Suc (log2n (n div 2))"
      by simp_all
    from False have e: "log2n n = Suc (log2n (n div 2))" by (simp add: log2n.simps)
    from ih show ?thesis unfolding e by (simp; linarith)
  qed
qed

lemma round_even_bounds: "\<bar>rat_of_int (round_even x) - x\<bar> \<le> 1 / 2"
proof -
  have "rat_of_int \<lfloor>x\<rfloor> \<le> x" "x < rat_of_int \<lfloor>x\<rfloor> + 1" by linarith+
  then show ?thesis by (auto simp: round_even_def Let_def)
qed

lemma round_even_of_int: "round_even (rat_of_int n) = n"
  by (simp add: round_even_def)


lemma ilog2_ge1:
  assumes "1 \<le> q"
  shows "power_int 2 (ilog2 q) \<le> q \<and> q < power_int 2 (ilog2 q + 1)"
proof -
  let ?n = "nat \<lfloor>q\<rfloor>"
  from assms have n: "0 < ?n" by simp
  from log2n_bounds [OF n] have a: "2 ^ log2n ?n \<le> ?n" and b: "?n < 2 ^ Suc (log2n ?n)"
    by simp_all
  have "rat_of_int (int (2 ^ log2n ?n)) \<le> rat_of_int (int ?n)"
    using a by (simp only: of_int_le_iff of_nat_le_iff)
  also have "\<dots> = rat_of_int \<lfloor>q\<rfloor>" using assms by simp
  also have "\<dots> \<le> q" by simp
  finally have lo: "2 ^ log2n ?n \<le> q" by simp
  from b have "int ?n + 1 \<le> int (2 ^ Suc (log2n ?n))" by linarith
  then have "\<lfloor>q\<rfloor> + 1 \<le> 2 ^ Suc (log2n ?n)" using assms by simp
  then have "rat_of_int (\<lfloor>q\<rfloor> + 1) \<le> rat_of_int (2 ^ Suc (log2n ?n))"
    by (simp only: of_int_le_iff)
  moreover have "q < rat_of_int (\<lfloor>q\<rfloor> + 1)" by linarith
  ultimately have hi: "q < 2 ^ Suc (log2n ?n)" by simp
  have "ilog2 q + 1 = int (Suc (log2n ?n))" using assms by (simp add: ilog2_def)
  then have "power_int (2::rat) (ilog2 q + 1) = 2 ^ Suc (log2n ?n)"
    by (simp only: power_int_of_nat)
  moreover have "power_int (2::rat) (ilog2 q) = 2 ^ log2n ?n"
    using assms by (simp add: ilog2_def)
  ultimately show ?thesis using lo hi by simp
qed

lemma ilog2_lt1:
  assumes "0 < q" and "q < 1"
  shows "power_int 2 (ilog2 q) \<le> q \<and> q < power_int 2 (ilog2 q + 1)"
proof -
  define x where "x = 1 / q"
  define n where "n = nat (\<lceil>x\<rceil> - 1)"
  define L where "L = log2n n"
  have x1: "1 < x" using assms by (simp add: x_def)
  then have c2: "2 \<le> \<lceil>x\<rceil>" by linarith
  then have n: "0 < n" unfolding n_def by linarith
  have a: "2 ^ L \<le> n" and b: "n < 2 ^ Suc L"
    using log2n_bounds [OF n] by (simp_all add: L_def)
  have nz: "int n = \<lceil>x\<rceil> - 1" unfolding n_def using c2 by linarith
  have cx: "rat_of_int \<lceil>x\<rceil> - 1 < x" "x \<le> rat_of_int \<lceil>x\<rceil>"
    using ceiling_correct [of x] by simp_all
  have nr: "(of_nat n :: rat) = rat_of_int \<lceil>x\<rceil> - 1"
  proof -
    have "(of_nat n :: rat) = rat_of_int (int n)" by simp
    also have "\<dots> = rat_of_int (\<lceil>x\<rceil> - 1)" by (simp only: nz)
    finally show ?thesis by simp
  qed
  have "(of_nat (2 ^ L) :: rat) \<le> of_nat n" using a by (simp only: of_nat_le_iff)
  then have lo: "(2::rat) ^ L < x" using nr cx(1) by simp
  from b have "Suc n \<le> 2 ^ Suc L" by simp
  then have "(of_nat (Suc n) :: rat) \<le> of_nat (2 ^ Suc L)" by (simp only: of_nat_le_iff)
  then have "rat_of_int \<lceil>x\<rceil> \<le> (2::rat) ^ Suc L" using nr by simp
  with cx(2) have hi: "x \<le> (2::rat) ^ Suc L" by linarith
  have qx: "q = 1 / x" using assms by (simp add: x_def)
  have xp: "0 < x" using x1 by simp
  have p: "(0::rat) < 2 ^ k" for k by simp
  have hi': "1 / 2 ^ Suc L \<le> q"
    unfolding qx using hi xp p [of "Suc L"] by (simp add: field_simps)
  have xl: "0 < x * 2 ^ L" using xp by simp
  have lo': "q < 1 / 2 ^ L"
    unfolding qx by (rule divide_strict_left_mono [OF lo _ xl]) simp
  have e: "ilog2 q = - int (Suc L)"
    using assms by (simp add: ilog2_def L_def n_def x_def)
  have "power_int (2::rat) (ilog2 q) = 1 / 2 ^ Suc L"
    unfolding e by (simp only: power_int_minus_divide power_int_of_nat)
  moreover have "ilog2 q + 1 = - int L" unfolding e by simp
  then have "power_int (2::rat) (ilog2 q + 1) = 1 / 2 ^ L"
    by (simp only: power_int_minus_divide power_int_of_nat)
  ultimately show ?thesis using lo' hi' by simp
qed

text \<open>\<open>ilog2\<close> is the binary exponent: the one \<open>e\<close> with \<open>2^e \<le> q < 2^(e+1)\<close>.\<close>

lemma ilog2_bounds:
  assumes "0 < q"
  shows "power_int 2 (ilog2 q) \<le> q \<and> q < power_int 2 (ilog2 q + 1)"
  using assms ilog2_ge1 [of q] ilog2_lt1 [of q] by (cases "1 \<le> q") simp_all

lemma ilog2_unique:
  assumes "0 < q" and "power_int 2 e \<le> q" and "q < power_int 2 (e + 1)"
  shows "ilog2 q = e"
proof (rule ccontr)
  assume ne: "ilog2 q \<noteq> e"
  from ilog2_bounds [OF assms(1)]
  have lo: "power_int 2 (ilog2 q) \<le> q" and hi: "q < power_int 2 (ilog2 q + 1)" by simp_all
  show False
  proof (cases "ilog2 q < e")
    case True
    then have "power_int (2::rat) (ilog2 q + 1) \<le> power_int 2 e"
      by (intro power_int_increasing) simp_all
    with hi assms(2) show False by linarith
  next
    case False
    with ne have "e + 1 \<le> ilog2 q" by simp
    then have "power_int (2::rat) (e + 1) \<le> power_int 2 (ilog2 q)"
      by (intro power_int_increasing) simp_all
    with lo assms(3) show False by linarith
  qed
qed

text \<open>
  \<open>fl64 q\<close> is a multiple of the unit in the last place of the binade of \<open>q\<close>, at
  most half a unit away from \<open>q\<close>.
\<close>

lemma fl64_binade:
  assumes "q \<noteq> 0" and "power_int 2 e \<le> \<bar>q\<bar>" and "\<bar>q\<bar> < power_int 2 (e + 1)"
  shows "fl64 q = sgn q * rat_of_int (round_even (\<bar>q\<bar> / power_int 2 (e - 52)))
                    * power_int 2 (e - 52)"
proof -
  from assms(1) have "0 < \<bar>q\<bar>" by simp
  from ilog2_unique [OF this assms(2,3)] assms(1) show ?thesis
    by (simp add: fl64_def Let_def)
qed


lemma fl64_half_ulp: "\<bar>fl64 q - q\<bar> \<le> power_int 2 (ilog2 \<bar>q\<bar> - 52) / 2"
proof (cases "q = 0")
  case True
  then show ?thesis by (simp add: fl64_def)
next
  case False
  define u :: rat where "u = power_int 2 (ilog2 \<bar>q\<bar> - 52)"
  define m where "m = round_even (\<bar>q\<bar> / u)"
  have up: "0 < u" by (simp add: u_def)
  have "\<bar>rat_of_int m - \<bar>q\<bar> / u\<bar> \<le> 1 / 2" unfolding m_def by (rule round_even_bounds)
  then have "\<bar>rat_of_int m - \<bar>q\<bar> / u\<bar> * u \<le> 1 / 2 * u"
    using up by (intro mult_right_mono) simp_all
  moreover have "\<bar>rat_of_int m - \<bar>q\<bar> / u\<bar> * u = \<bar>rat_of_int m * u - \<bar>q\<bar>\<bar>"
  proof -
    have "\<bar>rat_of_int m - \<bar>q\<bar> / u\<bar> * u = \<bar>(rat_of_int m - \<bar>q\<bar> / u) * u\<bar>"
      using up by (simp add: abs_mult)
    also have "(rat_of_int m - \<bar>q\<bar> / u) * u = rat_of_int m * u - \<bar>q\<bar>"
      using up by (simp add: field_simps)
    finally show ?thesis .
  qed
  ultimately have d: "\<bar>rat_of_int m * u - \<bar>q\<bar>\<bar> \<le> u / 2" by simp
  have f: "fl64 q = sgn q * (rat_of_int m * u)"
    using False by (simp add: fl64_def Let_def u_def m_def)
  have "fl64 q - q = sgn q * (rat_of_int m * u - \<bar>q\<bar>)"
    unfolding f by (simp add: right_diff_distrib sgn_mult_abs)
  then have "\<bar>fl64 q - q\<bar> = \<bar>rat_of_int m * u - \<bar>q\<bar>\<bar>"
    using False by (simp add: abs_mult abs_sgn_eq)
  with d show ?thesis by (simp add: u_def)
qed

text \<open>Integers of magnitude below \<open>2^53\<close> are binary64 numbers.\<close>

lemma fl64_of_int:
  assumes "\<bar>n\<bar> < 2 ^ 53"
  shows "fl64 (rat_of_int n) = rat_of_int n"
proof (cases "n = 0")
  case True
  then show ?thesis by (simp add: fl64_def)
next
  case False
  define q where "q = rat_of_int n"
  define e where "e = ilog2 \<bar>q\<bar>"
  have q0: "q \<noteq> 0" using False by (simp add: q_def)
  then have qp: "0 < \<bar>q\<bar>" by simp
  have b: "power_int 2 e \<le> \<bar>q\<bar>" "\<bar>q\<bar> < power_int 2 (e + 1)"
    using ilog2_bounds [OF qp] by (simp_all add: e_def)
  have "rat_of_int \<bar>n\<bar> < rat_of_int (2 ^ 53)" using assms by (simp only: of_int_less_iff)
  then have q53: "\<bar>q\<bar> < power_int 2 53" by (simp add: q_def)
  have e52: "e \<le> 52"
  proof (rule ccontr)
    assume "\<not> e \<le> 52"
    then have "53 \<le> e" by simp
    then have "power_int (2::rat) 53 \<le> power_int 2 e"
      by (intro power_int_increasing) simp_all
    with b(1) q53 show False by linarith
  qed
  define k where "k = nat (52 - e)"
  have ek: "e - 52 = - int k" using e52 by (simp add: k_def)
  have u: "power_int (2::rat) (e - 52) = 1 / 2 ^ k"
    unfolding ek by (simp only: power_int_minus_divide power_int_of_nat)
  have "\<bar>q\<bar> / (1 / 2 ^ k) = rat_of_int (\<bar>n\<bar> * 2 ^ k)"
    by (simp add: q_def)
  then have r: "round_even (\<bar>q\<bar> / (1 / 2 ^ k)) = \<bar>n\<bar> * 2 ^ k"
    by (simp only: round_even_of_int)
  have "fl64 q = sgn q * rat_of_int (\<bar>n\<bar> * 2 ^ k) * (1 / 2 ^ k)"
    using fl64_binade [OF q0 b] by (simp only: u r)
  also have "\<dots> = sgn q * \<bar>q\<bar>" by (simp add: q_def)
  also have "\<dots> = q" by (simp add: sgn_mult_abs)
  finally show ?thesis by (simp add: q_def)
qed

lemma wrap64_id: "- (2 ^ 63) \<le> s \<Longrightarrow> s < 2 ^ 63 \<Longrightarrow> wrap64 s = s"
  by (simp add: wrap64_def)

subsection \<open>The summary as a function of the current view\<close>

lemma dtypes_select_eq: "dtypes (select_eq df c v) = dtypes df"
  by (simp add: select_eq_def)

lemma dtypes_apply: "dtypes (apply_cross_chart_filter st df ft v) = dtypes df"
  by (simp add: apply_cross_chart_filter_eq dtypes_select_eq)

lemma sum_column_eq: "sum_list (map num (column df ''total_value_gbp'')) = monetary_sum df"
proof -
  have "num (case x of None \<Rightarrow> NoneV | Some c \<Rightarrow> c) =
          (case x of Some (NumV n) \<Rightarrow> n | _ \<Rightarrow> 0)" for x
    by (simp split: option.splits cell.splits)
  then show ?thesis
    by (simp add: column_def monetary_sum_def comp_def)
qed

lemma get_filtered_summary_stats_view:
  "get_filtered_summary_stats st df =
     (case (if ''total_value_gbp'' \<in> set (columns df)
            then sum_div_million (dtypes df ''total_value_gbp'')
                   (column (current_view st df) ''total_value_gbp'')
            else Inr 0) of
        Inl e \<Rightarrow> Inl e
      | Inr t \<Rightarrow> Inr \<lparr>contracts = int (length (rows (current_view st df))), value_m = t,
                     filtered = filter_active st\<rparr>)"
  by (cases "filter_active st")
     (simp_all add: get_filtered_summary_stats_def current_view_def columns_apply dtypes_apply
        Let_def split: sum.splits)

lemma get_filtered_summary_stats_eq:
  "get_filtered_summary_stats st df =
     (if ''total_value_gbp'' \<notin> set (columns df) then
        Inr \<lparr>contracts = int (length (rows (current_view st df))), value_m = 0,
             filtered = filter_active st\<rparr>
      else
        (case dtypes df ''total_value_gbp'' of
           Int64 \<Rightarrow>
             Inr \<lparr>contracts = int (length (rows (current_view st df))),
                  value_m = fl64 (fl64 (rat_of_int (wrap64 (monetary_sum (current_view st df))))
                                  / 1000000),
                  filtered = filter_active st\<rparr>
         | Object \<Rightarrow>
             (if list_ex is_str (column (current_view st df) ''total_value_gbp'')
              then Inl TypeError
              else if 2 ^ 1024
                        \<le> \<bar>fl64 (rat_of_int (monetary_sum (current_view st df)) / 1000000)\<bar>
              then Inl OverflowError
              else Inr \<lparr>contracts = int (length (rows (current_view st df))),
                        value_m = fl64 (rat_of_int (monetary_sum (current_view st df))
                                        / 1000000),
                        filtered = filter_active st\<rparr>)
         | Str \<Rightarrow> Inl TypeError))"
  by (simp add: get_filtered_summary_stats_view sum_div_million_def sum_column_eq Let_def
        split: dtype.splits)

lemma int64_small_sum:
  assumes "\<bar>s\<bar> < 2 ^ 53"
  shows "fl64 (rat_of_int (wrap64 s)) = rat_of_int s"
proof -
  from assms have "- (2 ^ 63) \<le> s" "s < 2 ^ 63" by simp_all
  then have "wrap64 s = s" by (rule wrap64_id)
  with fl64_of_int [OF assms] show ?thesis by simp
qed

lemma fl64_3: "fl64 3 = 3"
  using fl64_of_int [of 3] by simp





subsection \<open>The claims about the filter\<close>

text \<open>
  Claim C5 as stated covers every value present in the table. With the filter active,
  the recognized dimension \<open>supplier\<close> a column, and the empty string present in that
  column, filtering on the empty string returns the row of Costain as well, whose
  supplier cell is not the empty string: a falsy value never filters.
\<close>

theorem filter_falsy_value_counterexample:
  "filter_active empty_supplier_filter \<and>
   ''supplier'' \<in> set recognized \<and> ''supplier'' \<in> set (columns sample_suppliers) \<and>
   StrV '''' \<in> set (column sample_suppliers ''supplier'') \<and>
   [StrV ''Costain'', NumV 1000000] \<in> set (rows (apply_cross_chart_filter
      empty_supplier_filter sample_suppliers (Some ''supplier'') (StrV ''''))) \<and>
   cell_at sample_suppliers [StrV ''Costain'', NumV 1000000] ''supplier'' \<noteq> Some (StrV '''')"
  by (simp add: apply_cross_chart_filter_def empty_supplier_filter_def sample_suppliers_def
        recognized_def column_def cell_at_def)

text \<open>
  Claim C5, amended: with the filter active, for every recognized dimension \<open>d\<close> that
  is a column of \<open>df\<close> and every truthy value \<open>v\<close> (a non-empty string or a non-zero
  number), the result has the columns of \<open>df\<close> and exactly the rows of \<open>df\<close> whose
  cell in column \<open>d\<close> equals \<open>v\<close>, in their order: a sublist of the rows of \<open>df\<close>
  in which every row satisfies \<open>row[d] == v\<close>, of length at most \<open>len(df)\<close>. (That
  \<open>v\<close> occurs in \<open>df\<close> is not needed.)
\<close>

theorem filter_selects_matching_rows:
  assumes "filter_active st" and "d \<in> set recognized" and "d \<in> set (columns df)"
    and "truthy v"
  shows "rows (apply_cross_chart_filter st df (Some d) v) =
           filter (\<lambda>r. cell_at df r d = Some v) (rows df) \<and>
         columns (apply_cross_chart_filter st df (Some d) v) = columns df \<and>
         subseq (rows (apply_cross_chart_filter st df (Some d) v)) (rows df) \<and>
         (\<forall>r \<in> set (rows (apply_cross_chart_filter st df (Some d) v)).
            cell_at df r d = Some v) \<and>
         length (rows (apply_cross_chart_filter st df (Some d) v)) \<le> length (rows df)"
  by (simp add: rows_apply_active [OF assms] columns_apply)

theorem filter_selects_matching_rows_witness:
  "filter_active high_risk_filter \<and> ''risk_level'' \<in> set recognized \<and>
   ''risk_level'' \<in> set (columns sample_contracts) \<and> truthy (StrV ''High'') \<and>
   rows (apply_cross_chart_filter high_risk_filter sample_contracts (Some ''risk_level'')
           (StrV ''High'')) =
     [[StrV ''Reservoir upgrade'', StrV ''High'', NumV 2500000],
      [StrV ''Pumping station'', StrV ''High'', NumV 4000000]]"
proof -
  have a: "filter_active high_risk_filter" by (simp add: high_risk_filter_def)
  have b: "''risk_level'' \<in> set recognized" by (simp add: recognized_def)
  have c: "''risk_level'' \<in> set (columns sample_contracts)"
    by (simp add: sample_contracts_def)
  have d: "truthy (StrV ''High'')" by simp
  have "filter (\<lambda>r. cell_at sample_contracts r ''risk_level'' = Some (StrV ''High''))
          (rows sample_contracts) =
        [[StrV ''Reservoir upgrade'', StrV ''High'', NumV 2500000],
         [StrV ''Pumping station'', StrV ''High'', NumV 4000000]]"
    by (simp add: sample_contracts_def cell_at_def)
  with filter_selects_matching_rows [OF a b c d] a b c d show ?thesis by simp
qed

text \<open>
  Claim C6: the filter is idempotent. For every session state, table, dimension and
  value, filtering the filtered table again with the same dimension and value gives the
  filtered table.
\<close>

theorem filter_idempotent:
  "apply_cross_chart_filter st (apply_cross_chart_filter st df d v) d v =
     apply_cross_chart_filter st df d v"
  by (cases "filter_applies st df d v")
     (simp_all add: apply_cross_chart_filter_eq filter_applies_select_eq select_eq_idem)

theorem filter_idempotent_witness:
  "apply_cross_chart_filter high_risk_filter
     (apply_cross_chart_filter high_risk_filter sample_contracts (Some ''risk_level'')
        (StrV ''High'')) (Some ''risk_level'') (StrV ''High'') =
   apply_cross_chart_filter high_risk_filter sample_contracts (Some ''risk_level'')
     (StrV ''High'') \<and>
   apply_cross_chart_filter high_risk_filter sample_contracts (Some ''risk_level'')
     (StrV ''High'') \<noteq> sample_contracts"
  using filter_idempotent [of high_risk_filter sample_contracts "Some ''risk_level''"
      "StrV ''High''"]
  by (simp add: apply_cross_chart_filter_def high_risk_filter_def sample_contracts_def
        truthy_str_def select_eq_def cell_at_def)

text \<open>
  Claim C7: when the dimension is not a recognized name, or is one but not a column of
  the table, the filter returns the table as it is (same columns, same rows in the same
  order), whatever the session state and the value. The model of the function has no
  error result: none of its branches raises.
\<close>

theorem filter_unrecognized_dimension_noop:
  assumes "d \<notin> set recognized \<or> d \<notin> set (columns df)"
  shows "apply_cross_chart_filter st df (Some d) v = df"
  using assms by (auto simp: apply_cross_chart_filter_eq filter_applies_def)

theorem filter_unrecognized_dimension_noop_witness:
  "''package_name'' \<notin> set recognized \<and>
   apply_cross_chart_filter high_risk_filter sample_contracts (Some ''package_name'')
     (StrV ''Mains renewal'') = sample_contracts \<and>
   ''supplier'' \<in> set recognized \<and> ''supplier'' \<notin> set (columns sample_contracts) \<and>
   apply_cross_chart_filter high_risk_filter sample_contracts (Some ''supplier'')
     (StrV ''Costain'') = sample_contracts"
proof -
  have a: "''package_name'' \<notin> set recognized" by (simp add: recognized_def)
  have b: "''supplier'' \<notin> set (columns sample_contracts)" by (simp add: sample_contracts_def)
  have c: "''supplier'' \<in> set recognized" by (simp add: recognized_def)
  show ?thesis
    using filter_unrecognized_dimension_noop [OF disjI1 [OF a], of high_risk_filter
        sample_contracts "StrV ''Mains renewal''"]
      filter_unrecognized_dimension_noop [OF disjI2 [OF b], of high_risk_filter
        "StrV ''Costain''"] a b c
    by simp
qed




text \<open>
  Claim C9: for every table, the totals (row count and total value) returned with no
  active filter equal the totals returned with an active filter \<open>(d, v)\<close> that every
  row of the table matches. The comparison is of the pair the spec calls the result of
  \<open>summaryStats\<close>; the \<open>filtered\<close> entry of the returned dictionary records the
  flag and is \<open>True\<close> in the one call and \<open>False\<close> in the other, and the two
  dictionaries agree in everything else (second conjunct).
\<close>

theorem summary_noop_filter_same_totals:
  assumes "filter_active st" and "\<not> filter_active st'"
    and "filter_type st = Some d" and "filter_value st = v"
    and "\<forall>r \<in> set (rows df). cell_at df r d = Some v"
  shows "totals (get_filtered_summary_stats st df) = totals (get_filtered_summary_stats st' df) \<and>
         get_filtered_summary_stats st df =
           map_sum id (\<lambda>r. r\<lparr>filtered := True\<rparr>) (get_filtered_summary_stats st' df)"
proof -
  define t where "t = (if ''total_value_gbp'' \<in> set (columns df)
                       then sum_div_million (dtypes df ''total_value_gbp'')
                              (column df ''total_value_gbp'')
                       else Inr 0)"
  have v1: "current_view st df = df"
    using assms by (simp add: current_view_def apply_matching_all)
  have v2: "current_view st' df = df"
    using assms(2) by (simp add: current_view_def)
  have a: "get_filtered_summary_stats st df =
             (case t of Inl e \<Rightarrow> Inl e
              | Inr x \<Rightarrow> Inr \<lparr>contracts = int (length (rows df)), value_m = x,
                               filtered = True\<rparr>)"
    using assms(1) by (simp add: get_filtered_summary_stats_view v1 t_def split: sum.splits)
  have b: "get_filtered_summary_stats st' df =
             (case t of Inl e \<Rightarrow> Inl e
              | Inr x \<Rightarrow> Inr \<lparr>contracts = int (length (rows df)), value_m = x,
                               filtered = False\<rparr>)"
    using assms(2) by (simp add: get_filtered_summary_stats_view v2 t_def split: sum.splits)
  show ?thesis unfolding a b by (cases t) (simp_all add: totals_def)
qed

theorem summary_noop_filter_same_totals_witness:
  "filter_active only_costain_filter \<and> \<not> filter_active no_filter \<and>
   column only_costain ''supplier'' = [StrV ''Costain'', StrV ''Costain''] \<and>
   totals (get_filtered_summary_stats only_costain_filter only_costain) = Inr (2, 3) \<and>
   totals (get_filtered_summary_stats no_filter only_costain) = Inr (2, 3)"
proof -
  have a: "filter_active only_costain_filter" by (simp add: only_costain_filter_def)
  have b: "\<not> filter_active no_filter" by (simp add: no_filter_def)
  have c: "filter_type only_costain_filter = Some ''supplier''"
    by (simp add: only_costain_filter_def)
  have d: "filter_value only_costain_filter = StrV ''Costain''"
    by (simp add: only_costain_filter_def)
  have e: "\<forall>r \<in> set (rows only_costain).
             cell_at only_costain r ''supplier'' = Some (StrV ''Costain'')"
    by (simp add: only_costain_def cell_at_def)
  have v: "current_view no_filter only_costain = only_costain"
    by (simp add: current_view_def no_filter_def)
  have s: "monetary_sum only_costain = 3000000"
    by (simp add: monetary_sum_def only_costain_def cell_at_def)
  have m: "fl64 (fl64 (rat_of_int (wrap64 3000000)) / 1000000) = 3"
    by (simp add: int64_small_sum fl64_3)
  have cc: "''total_value_gbp'' \<in> set (columns only_costain)"
    by (simp add: only_costain_def)
  have dd: "dtypes only_costain ''total_value_gbp'' = Int64"
    by (simp add: only_costain_def sample_dtypes_def)
  have l: "length (rows only_costain) = 2" by (simp add: only_costain_def)
  have f: "totals (get_filtered_summary_stats no_filter only_costain) = Inr (2, 3)"
    by (simp add: get_filtered_summary_stats_eq totals_def v s m cc dd l)
  have g: "column only_costain ''supplier'' = [StrV ''Costain'', StrV ''Costain'']"
    by (simp add: only_costain_def column_def cell_at_def)
  from summary_noop_filter_same_totals [OF a b c d e, THEN conjunct1] a b f g
  show ?thesis by simp
qed

text \<open>
  Claim C10: when the filter flag is off, or the dimension is \<open>None\<close> (or the empty
  string), or the value is \<open>None\<close>, the empty string or 0, the filter returns the
  table unchanged, even for a recognized dimension that is a column in which the value
  occurs.
\<close>

theorem filter_inactive_or_falsy_noop:
  assumes "\<not> filter_active st \<or> \<not> truthy_str ft \<or> \<not> truthy v"
  shows "apply_cross_chart_filter st df ft v = df"
  using assms by (auto simp: apply_cross_chart_filter_def)

theorem filter_inactive_or_falsy_noop_witness:
  "filter_active empty_supplier_filter \<and> ''supplier'' \<in> set recognized \<and>
   ''supplier'' \<in> set (columns sample_suppliers) \<and>
   StrV '''' \<in> set (column sample_suppliers ''supplier'') \<and> \<not> truthy (StrV '''') \<and>
   apply_cross_chart_filter empty_supplier_filter sample_suppliers (Some ''supplier'')
     (StrV '''') = sample_suppliers \<and>
   \<not> truthy (NumV 0) \<and> \<not> truthy NoneV \<and> \<not> truthy_str None \<and>
   apply_cross_chart_filter no_filter sample_contracts (Some ''risk_level'') (StrV ''High'')
     = sample_contracts"
proof -
  have a: "\<not> truthy (StrV '''')" by simp
  have b: "\<not> filter_active no_filter" by (simp add: no_filter_def)
  have c: "''supplier'' \<in> set recognized" by (simp add: recognized_def)
  have d: "''supplier'' \<in> set (columns sample_suppliers)" by (simp add: sample_suppliers_def)
  have e: "StrV '''' \<in> set (column sample_suppliers ''supplier'')"
    by (simp add: sample_suppliers_def column_def cell_at_def)
  have f: "filter_active empty_supplier_filter" by (simp add: empty_supplier_filter_def)
  have g: "apply_cross_chart_filter empty_supplier_filter sample_suppliers (Some ''supplier'')
             (StrV '''') = sample_suppliers"
    by (rule filter_inactive_or_falsy_noop) simp
  have h: "apply_cross_chart_filter no_filter sample_contracts (Some ''risk_level'')
             (StrV ''High'') = sample_contracts"
    by (rule filter_inactive_or_falsy_noop) (simp add: b)
  from a c d e f g h show ?thesis
    by (simp add: truthy_str_def)
qed

end
